theory Spec2Isabelle
  imports Main "HOL-Library.AList"
begin

section \<open>JavaScript values, objects and the array store\<close>

text \<open>
  The library keeps its data in plain JavaScript objects and arrays. An object is modelled
  as an association list with distinct keys, in insertion order (assigning to a new key
  appends it, assigning to an existing key keeps its place, \<open>delete\<close> removes it); this is
  \<open>AList.update\<close> and \<open>AList.delete\<close>. Arrays are mutable and shared by reference
  (\<open>Array.prototype.shift\<close> and \<open>push\<close> change the array every holder sees), so an array
  value is an address \<open>Arr a\<close> into a store; element objects are references \<open>Elem r\<close>.
  Numbers are modelled by integers.
\<close>

datatype jsval =
    Undefined
  | Null
  | JBool bool
  | Num int
  | Str string
  | Arr nat
  | Elem nat
  | ObjV "(string \<times> jsval) list"

type_synonym obj = "(string \<times> jsval) list"

type_synonym store = "nat \<Rightarrow> jsval list"

text \<open>Reading a property: an absent key reads as \<open>undefined\<close>.\<close>

definition get :: "obj \<Rightarrow> string \<Rightarrow> jsval" where
  "get ob k = (case map_of ob k of None \<Rightarrow> Undefined | Some v \<Rightarrow> v)"

text \<open>JavaScript truthiness, as used by \<open>if (x)\<close>, \<open>!x\<close> and \<open>x || y\<close>.\<close>

fun truthy :: "jsval \<Rightarrow> bool" where
  "truthy Undefined = False"
| "truthy Null = False"
| "truthy (JBool b) = b"
| "truthy (Num n) = (n \<noteq> 0)"
| "truthy (Str s) = (s \<noteq> [])"
| "truthy (Arr a) = True"
| "truthy (Elem r) = True"
| "truthy (ObjV ob) = True"

section \<open>Surface.processOptions: one tick of a sequence-valued payload\<close>

text \<open>
  \<open>value.shift()\<close>: removes and returns the first element of the array at \<open>a\<close>;
  on an empty array it returns \<open>undefined\<close> and leaves the array empty.
\<close>

definition shift :: "store \<Rightarrow> nat \<Rightarrow> jsval \<times> store" where
  "shift h a = (case h a of [] \<Rightarrow> (Undefined, h) | x # xs \<Rightarrow> (x, h(a := xs)))"

text \<open>
  The body of the \<open>_.each(options, function (value, key) ...)\<close> loop of
  \<open>processOptions\<close>, on the state (store, options, clone). \<open>_.isArray(value)\<close> holds
  exactly for \<open>Arr a\<close>.
\<close>

fun processKey :: "store \<times> obj \<times> obj \<Rightarrow> string \<times> jsval \<Rightarrow> store \<times> obj \<times> obj" where
  "processKey (h, opts, clone) (key, Arr a) =
     (let (x, h') = shift h a;
          clone' = AList.update key x clone
      in if length (h' a) = 0
         then (h', AList.delete key opts, clone')
         else (h', AList.update ''more'' (JBool True) opts, clone'))"
| "processKey (h, opts, clone) (key, v) = (h, opts, AList.update key v clone)"

text \<open>
  \<open>processOptions(options)\<close>: \<open>delete options.more\<close>, then the loop over the keys the
  object has at that moment (Underscore's \<open>_.each\<close> walks \<open>_.keys(obj)\<close>, taken before
  the first call of the iterator, so the \<open>more\<close> key the loop adds is not visited).
  Returns the store, the mutated options and the clone.
\<close>

definition processOptions :: "store \<Rightarrow> obj \<Rightarrow> store \<times> obj \<times> obj" where
  "processOptions h opts =
     (let options1 = AList.delete ''more'' opts
      in foldl processKey (h, options1, []) options1)"


section \<open>Elements, the registry and the surface\<close>

text \<open>
  The exceptions the code throws, by message; \<open>TypeError\<close> stands for the engine's own
  error on reading a property of \<open>undefined\<close> or calling something that is no function.
\<close>

datatype error =
    DestroyAlreadyCalled
  | MissingElement
  | UnregisteredState
  | TypeError

text \<open>
  An element object. \<open>eid\<close> is \<open>this.id\<close>, \<open>parent\<close> is \<open>this.parent\<close> (absent or an
  element), \<open>children\<close> is \<open>this.children.elements\<close>, \<open>states\<close> is \<open>this.states\<close>,
  \<open>destroyed\<close> is \<open>this.destroyed\<close>, and \<open>props\<close> holds every other own property that
  \<open>set\<close> has written. The DOM handle (\<open>this.dom\<close>) belongs to the rendering back-end and
  is left out, with \<open>update\<close> and \<open>validate\<close>, which only touch it. Keys passed to
  \<open>set\<close> are assumed not to name \<open>children\<close>, \<open>destroyed\<close>, \<open>parentID\<close> or a method.
\<close>

record element =
  eid :: jsval
  props :: obj
  parent :: "nat option"
  children :: "nat list"
  states :: "(string \<times> obj) list"
  destroyed :: bool

datatype cmdname = UPDATE_COMMAND | DESTROY_COMMAND

record command =
  name :: cmdname
  options :: obj

text \<open>
  The state the library works on: the array store with its allocation pointer, the element
  objects with theirs, the static \<open>Element.nextID\<close> and \<open>Element.map\<close>, and the singleton
  surface (\<open>algo.SURFACE\<close>): its command buffer, its location and its root.
\<close>

record world =
  arrays :: store
  nextArr :: nat
  elems :: "nat \<Rightarrow> element option"
  nextRef :: nat
  nextID :: nat
  emap :: "jsval \<Rightarrow> nat option"
  commands :: "command list"
  isDOM :: bool
  root :: "nat option"

text \<open>
  A call returns normally (\<open>Inr\<close>) or throws (\<open>Inl\<close>, with the state at the throw). The
  recursive operations take fuel, one unit per nested or iterated call; \<open>None\<close> means
  that the fuel ran out.
\<close>

type_synonym 'a res = "(error \<times> world) + 'a"

definition bind :: "'a res option \<Rightarrow> ('a \<Rightarrow> 'b res option) \<Rightarrow> 'b res option" where
  "bind m f = (case m of None \<Rightarrow> None | Some (Inl e) \<Rightarrow> Some (Inl e) | Some (Inr x) \<Rightarrow> f x)"

definition upd_elem :: "world \<Rightarrow> nat \<Rightarrow> (element \<Rightarrow> element) \<Rightarrow> world" where
  "upd_elem w r f = (case elems w r of None \<Rightarrow> w | Some e \<Rightarrow> w\<lparr>elems := (elems w)(r \<mapsto> f e)\<rparr>)"

definition parent_of :: "world \<Rightarrow> nat \<Rightarrow> nat option" where
  "parent_of w r = (case elems w r of None \<Rightarrow> None | Some e \<Rightarrow> parent e)"

definition children_of :: "world \<Rightarrow> nat \<Rightarrow> nat list" where
  "children_of w r = (case elems w r of None \<Rightarrow> [] | Some e \<Rightarrow> children e)"

definition id_of :: "world \<Rightarrow> nat \<Rightarrow> jsval" where
  "id_of w r = (case elems w r of None \<Rightarrow> Undefined | Some e \<Rightarrow> eid e)"

subsection \<open>Element.addChild, Element.removeChild\<close>

text \<open>
  \<open>p.addChild(e)\<close>: \<open>children.add(e)\<close> pushes \<open>e\<close> unless it is a member already; then
  \<open>e.parent = p\<close>. \<open>p.removeChild(e)\<close>: \<open>children.remove(e)\<close> splices out the first
  occurrence; then \<open>delete e.parent\<close>.
\<close>

definition addChild :: "world \<Rightarrow> nat \<Rightarrow> nat \<Rightarrow> world" where
  "addChild w p e =
     (let w1 = upd_elem w p (\<lambda>pe. pe\<lparr>children :=
                 (if e \<in> set (children pe) then children pe else children pe @ [e])\<rparr>)
      in upd_elem w1 e (\<lambda>ee. ee\<lparr>parent := Some p\<rparr>))"

definition removeChild :: "world \<Rightarrow> nat \<Rightarrow> nat \<Rightarrow> world" where
  "removeChild w p e =
     (let w1 = upd_elem w p (\<lambda>pe. pe\<lparr>children := remove1 e (children pe)\<rparr>)
      in upd_elem w1 e (\<lambda>ee. ee\<lparr>parent := None\<rparr>))"

subsection \<open>Surface.addCommand, elementUpdated, elementDestroyed, flushCommands\<close>

text \<open>\<open>_.extend(dst, src)\<close>: every key of \<open>src\<close> is assigned in \<open>dst\<close>.\<close>

definition js_extend :: "obj \<Rightarrow> obj \<Rightarrow> obj" where
  "js_extend dst src = foldl (\<lambda>ob (k, v). AList.update k v ob) dst src"

text \<open>\<open>options.parent.id\<close>, for a truthy \<open>options.parent\<close>.\<close>

definition parent_id :: "world \<Rightarrow> jsval \<Rightarrow> jsval" where
  "parent_id w v = (case v of Elem q \<Rightarrow> id_of w q | ObjV ob \<Rightarrow> get ob ''id'' | _ \<Rightarrow> Undefined)"

text \<open>
  The \<open>_.find\<close> for an Update command of the same id, with the \<open>_.extend\<close> of its options
  when there is one; \<open>None\<close> when there is none.
\<close>

fun extendExisting :: "command list \<Rightarrow> obj \<Rightarrow> command list option" where
  "extendExisting [] c = None"
| "extendExisting (cmd # cmds) c =
     (if name cmd = UPDATE_COMMAND \<and> get (options cmd) ''id'' = get c ''id''
      then Some (cmd\<lparr>options := js_extend (options cmd) c\<rparr> # cmds)
      else map_option ((#) cmd) (extendExisting cmds c))"

text \<open>
  The options of a new command: \<open>_.omit(options, 'states', 'state', 'shape')\<close>, the
  parent replaced by its id, and the id of the element.
\<close>

definition commandOptions :: "world \<Rightarrow> nat \<Rightarrow> obj \<Rightarrow> obj" where
  "commandOptions w element opts =
     (let c0 = filter (\<lambda>(k, v). k \<noteq> ''states'' \<and> k \<noteq> ''state'' \<and> k \<noteq> ''shape'') opts;
          c1 = (if truthy (get opts ''parent'')
                then AList.update ''parent'' (parent_id w (get opts ''parent'')) c0 else c0)
      in AList.update ''id'' (id_of w element) c1)"

text \<open>
  \<open>addCommand(name, element, options)\<close> does nothing on the DOM side. An Update command
  extends the Update command of the same id that the buffer has, if any; every other
  command is pushed.
\<close>

definition addCommand :: "world \<Rightarrow> cmdname \<Rightarrow> nat \<Rightarrow> obj \<Rightarrow> world" where
  "addCommand w nm element opts =
     (if isDOM w then w
      else if nm = UPDATE_COMMAND
      then (case extendExisting (commands w) (commandOptions w element opts) of
              Some cmds \<Rightarrow> w\<lparr>commands := cmds\<rparr>
            | None \<Rightarrow>
                w\<lparr>commands := commands w @ [\<lparr>name = nm, options = commandOptions w element opts\<rparr>]\<rparr>)
      else w\<lparr>commands := commands w @ [\<lparr>name = nm, options = commandOptions w element opts\<rparr>]\<rparr>)"

definition elementUpdated :: "world \<Rightarrow> nat \<Rightarrow> obj \<Rightarrow> world" where
  "elementUpdated w element opts = addCommand w UPDATE_COMMAND element opts"

definition elementDestroyed :: "world \<Rightarrow> nat \<Rightarrow> world" where
  "elementDestroyed w element = addCommand w DESTROY_COMMAND element []"

definition flushCommands :: "world \<Rightarrow> command list \<times> world" where
  "flushCommands w = (commands w, w\<lparr>commands := []\<rparr>)"

subsection \<open>Element.addStates\<close>

text \<open>
  \<open>addStates(states)\<close> registers \<open>{properties: _.clone(state.properties)}\<close> under
  \<open>state.name\<close> for every member of an array (or value of an object) of definitions. The
  model registers the definitions that have a string name and an object of properties.
\<close>

fun addState :: "(string \<times> obj) list \<Rightarrow> jsval \<Rightarrow> (string \<times> obj) list" where
  "addState sts (ObjV d) =
     (case (get d ''name'', get d ''properties'') of
        (Str nm, ObjV ps) \<Rightarrow> AList.update nm ps sts
      | _ \<Rightarrow> sts)"
| "addState sts v = sts"

definition addStates :: "world \<Rightarrow> nat \<Rightarrow> jsval \<Rightarrow> world" where
  "addStates w r v =
     (let defs = (case v of Arr a \<Rightarrow> arrays w a | ObjV ob \<Rightarrow> map snd ob | _ \<Rightarrow> [])
      in upd_elem w r (\<lambda>e. e\<lparr>states := foldl addState (states e) defs\<rparr>))"

text \<open>\<open>this.states[name]\<close>, for a string name.\<close>

definition findState :: "world \<Rightarrow> nat \<Rightarrow> jsval \<Rightarrow> obj option" where
  "findState w r v =
     (case (elems w r, v) of (Some e, Str nm) \<Rightarrow> map_of (states e) nm | _ \<Rightarrow> None)"

text \<open>
  In \<open>setState\<close>, for one state of an array of names:
  \<open>properties[key] = properties[key] || []; properties[key].push(value)\<close> for every
  property of the state. A new array is allocated at \<open>nextArr\<close>.
\<close>

fun pushProperty :: "world \<times> obj \<Rightarrow> string \<times> jsval \<Rightarrow> world \<times> obj" where
  "pushProperty (w, properties) (key, v) =
     (case get properties key of
        Arr a \<Rightarrow> (w\<lparr>arrays := (arrays w)(a := arrays w a @ [v])\<rparr>, properties)
      | _ \<Rightarrow> (w\<lparr>arrays := (arrays w)(nextArr w := [v]), nextArr := Suc (nextArr w)\<rparr>,
               AList.update key (Arr (nextArr w)) properties))"

subsection \<open>Element.set and Element.setState\<close>

text \<open>
  Reading and writing an own property in the default case of \<open>set\<close>; the key \<open>id\<close> is
  the element's id (every command that reaches the DOM side carries it).
\<close>

definition readOwn :: "element \<Rightarrow> string \<Rightarrow> jsval" where
  "readOwn e key = (if key = ''id'' then eid e else get (props e) key)"

definition writeOwn :: "element \<Rightarrow> string \<Rightarrow> jsval \<Rightarrow> element" where
  "writeOwn e key v = (if key = ''id'' then e\<lparr>eid := v\<rparr> else e\<lparr>props := AList.update key v (props e)\<rparr>)"

text \<open>\<open>Element.prototype.fromShape\<close> of the base class does nothing.\<close>

definition fromShape :: "world \<Rightarrow> nat \<Rightarrow> jsval \<Rightarrow> world" where
  "fromShape w r shape = w"

text \<open>
  The end of \<open>set\<close>: an element without parent, for which no parent and no root marker
  was given and whose id is not \<open>algoid-0\<close>, is appended to \<open>algo.SURFACE.root\<close>.
\<close>

definition attachToRoot :: "world \<Rightarrow> nat \<Rightarrow> obj \<Rightarrow> world res" where
  "attachToRoot w r opts =
     (if parent_of w r = None \<and> \<not> truthy (get opts ''parent'') \<and> \<not> truthy (get opts ''root'')
         \<and> id_of w r \<noteq> Str ''algoid-0''
      then (case root w of None \<Rightarrow> Inl (TypeError, w) | Some rt \<Rightarrow> Inr (addChild w rt r))
      else Inr w)"

text \<open>
  \<open>set\<close> and \<open>setState\<close> call each other, and \<open>set\<close> calls itself on the children.
  Each part is written with the function it calls as a parameter; \<open>set_el\<close> ties the
  knot on the fuel, one unit per nested call of \<open>set\<close>.

  \<open>setState_names\<close> is the loop of \<open>setState\<close> over an array of state names, with the
  \<open>properties\<close> object it builds; \<open>this.set(properties)\<close> stands inside the loop.
\<close>

fun setState_names ::
  "(world \<Rightarrow> nat \<Rightarrow> obj option \<Rightarrow> int \<Rightarrow> world res option)
    \<Rightarrow> world \<Rightarrow> nat \<Rightarrow> jsval list \<Rightarrow> obj \<Rightarrow> world res option" where
  "setState_names set_rec w r [] properties = Some (Inr w)"
| "setState_names set_rec w r (nm # names) properties =
     (case findState w r nm of
        None \<Rightarrow> Some (Inl (UnregisteredState, w))
      | Some ps \<Rightarrow>
          (case foldl pushProperty (w, properties) ps of
             (w1, properties1) \<Rightarrow>
               bind (set_rec w1 r (Some properties1) 0)
                 (\<lambda>w2. setState_names set_rec w2 r names properties1)))"

definition setState_body ::
  "(world \<Rightarrow> nat \<Rightarrow> obj option \<Rightarrow> int \<Rightarrow> world res option)
    \<Rightarrow> world \<Rightarrow> nat \<Rightarrow> jsval \<Rightarrow> world res option" where
  "setState_body set_rec w r stateName =
     (case stateName of
        Arr a \<Rightarrow> setState_names set_rec w r (arrays w a) []
      | _ \<Rightarrow>
          (case findState w r stateName of
             Some ps \<Rightarrow> set_rec w r (Some ps) 0
           | None \<Rightarrow> Some (Inl (UnregisteredState, w))))"

text \<open>The loop of \<open>set\<close> over the keys of \<open>options\<close>, counting the changes.\<close>

fun set_keys ::
  "(world \<Rightarrow> nat \<Rightarrow> obj option \<Rightarrow> int \<Rightarrow> world res option)
    \<Rightarrow> world \<Rightarrow> nat \<Rightarrow> obj \<Rightarrow> nat \<Rightarrow> (world \<times> nat) res option" where
  "set_keys set_rec w r [] changes = Some (Inr (w, changes))"
| "set_keys set_rec w r ((key, v) # kvs) changes =
     (if key = ''parent'' then
        (let w1 = (case parent_of w r of Some p \<Rightarrow> removeChild w p r | None \<Rightarrow> w)
         in case v of
              Elem q \<Rightarrow>
                (if elems w1 q = None then Some (Inl (TypeError, w1))
                 else set_keys set_rec (addChild w1 q r) r kvs (changes + 1))
            | _ \<Rightarrow> Some (Inl (TypeError, w1)))
      else if key = ''states'' then set_keys set_rec (addStates w r v) r kvs changes
      else if key = ''state'' then
        bind (setState_body set_rec w r v) (\<lambda>w1. set_keys set_rec w1 r kvs (changes + 1))
      else if key = ''shape'' then set_keys set_rec (fromShape w r v) r kvs (changes + 1)
      else
        (case elems w r of
           None \<Rightarrow> Some (Inl (TypeError, w))
         | Some e \<Rightarrow>
             if readOwn e key \<noteq> v
             then set_keys set_rec (upd_elem w r (\<lambda>e. writeOwn e key v)) r kvs (changes + 1)
             else set_keys set_rec w r kvs changes))"

text \<open>
  The loop of \<open>set\<close> over the children: \<open>_.each\<close> on the live array
  \<open>this.children.elements\<close>, as \<open>Array.prototype.forEach\<close> walks it: by index, up to
  the length at the start (\<open>k\<close> counts the indices left), skipping an index the array
  no longer has.
\<close>

fun set_children ::
  "(world \<Rightarrow> nat \<Rightarrow> obj option \<Rightarrow> int \<Rightarrow> world res option)
    \<Rightarrow> world \<Rightarrow> nat \<Rightarrow> obj option \<Rightarrow> int \<Rightarrow> nat \<Rightarrow> nat \<Rightarrow> world res option" where
  "set_children set_rec w r opts depth i 0 = Some (Inr w)"
| "set_children set_rec w r opts depth i (Suc k) =
     (if i < length (children_of w r)
      then bind (set_rec w (children_of w r ! i) opts depth)
             (\<lambda>w1. set_children set_rec w1 r opts depth (Suc i) k)
      else set_children set_rec w r opts depth (Suc i) k)"

text \<open>
  \<open>set(options, _depth)\<close>: nothing is applied when \<open>options\<close> is missing; an Update
  command is recorded when the count of changes is not zero; \<open>depth\<close> is
  \<open>_depth || 0\<close>, and the children get \<open>depth - 1\<close> when it is truthy.
\<close>

definition set_body ::
  "(world \<Rightarrow> nat \<Rightarrow> obj option \<Rightarrow> int \<Rightarrow> world res option)
    \<Rightarrow> world \<Rightarrow> nat \<Rightarrow> obj option \<Rightarrow> int \<Rightarrow> world res option" where
  "set_body set_rec w r opts depth =
     bind (case opts of
             None \<Rightarrow> Some (Inr w)
           | Some ob \<Rightarrow>
               bind (set_keys set_rec w r ob 0)
                 (\<lambda>(w1, changes).
                    Some (attachToRoot (if changes \<noteq> 0 then elementUpdated w1 r ob else w1) r ob)))
       (\<lambda>w2. if depth \<noteq> 0
              then set_children set_rec w2 r opts (depth - 1) 0 (length (children_of w2 r))
              else Some (Inr w2))"

fun set_el :: "nat \<Rightarrow> world \<Rightarrow> nat \<Rightarrow> obj option \<Rightarrow> int \<Rightarrow> world res option" where
  "set_el 0 w r opts depth = None"
| "set_el (Suc n) w r opts depth = set_body (set_el n) w r opts depth"

definition setState :: "nat \<Rightarrow> world \<Rightarrow> nat \<Rightarrow> jsval \<Rightarrow> world res option" where
  "setState n w r stateName = setState_body (set_el n) w r stateName"

subsection \<open>Element.destroy and ElementGroup.destroy\<close>

text \<open>
  \<open>ElementGroup.destroy\<close> calls \<open>destroy\<close> on every member of a copy of the list (the
  list is emptied afterwards, in \<open>destroy_body\<close>). The function argument stands for
  \<open>Element.destroy\<close>.
\<close>

fun destroy_each ::
  "(world \<Rightarrow> nat \<Rightarrow> world res option) \<Rightarrow> world \<Rightarrow> nat list \<Rightarrow> world res option" where
  "destroy_each destroy_rec w [] = Some (Inr w)"
| "destroy_each destroy_rec w (e # es) =
     bind (destroy_rec w e) (\<lambda>w1. destroy_each destroy_rec w1 es)"

text \<open>
  \<open>destroy()\<close>: throw if already destroyed; destroy the children; leave the parent; tell
  the surface; throw if the id is not in \<open>Element.map\<close>, else delete it there; set the
  flag.
\<close>

definition destroy_body ::
  "(world \<Rightarrow> nat \<Rightarrow> world res option) \<Rightarrow> world \<Rightarrow> nat \<Rightarrow> world res option" where
  "destroy_body destroy_rec w r =
     (case elems w r of
        None \<Rightarrow> Some (Inl (TypeError, w))
      | Some e \<Rightarrow>
          if destroyed e then Some (Inl (DestroyAlreadyCalled, w))
          else
            bind (destroy_each destroy_rec w (children e))
              (\<lambda>w1.
                 let w2 = upd_elem w1 r (\<lambda>e. e\<lparr>children := []\<rparr>);
                     w3 = (case parent_of w2 r of Some p \<Rightarrow> removeChild w2 p r | None \<Rightarrow> w2);
                     w4 = elementDestroyed w3 r
                 in if emap w4 (id_of w4 r) = None then Some (Inl (MissingElement, w4))
                    else Some (Inr (upd_elem (w4\<lparr>emap := (emap w4)(id_of w4 r := None)\<rparr>) r
                                      (\<lambda>e. e\<lparr>destroyed := True\<rparr>)))))"

fun destroy :: "nat \<Rightarrow> world \<Rightarrow> nat \<Rightarrow> world res option" where
  "destroy 0 w r = None"
| "destroy (Suc n) w r = destroy_body (destroy n) w r"

subsection \<open>The Element and Rectangle constructors, Element.resetClass\<close>

definition resetClass :: "world \<Rightarrow> world" where
  "resetClass w = w\<lparr>nextID := 0, emap := (\<lambda>_. None)\<rparr>"

text \<open>The decimal digits of a number, for \<open>'algoid-' + nextID\<close>.\<close>

fun string_of_nat :: "nat \<Rightarrow> string" where
  "string_of_nat n =
     (if n < 10 then [char_of (48 + n)]
      else string_of_nat (n div 10) @ [char_of (48 + n mod 10)])"

declare string_of_nat.simps [simp del]

definition algoid :: "nat \<Rightarrow> jsval" where
  "algoid n = Str (''algoid-'' @ string_of_nat n)"

text \<open>
  \<open>_.defaults(obj, ds)\<close> fills in the keys of \<open>ds\<close> that are \<open>undefined\<close> in \<open>obj\<close>;
  \<open>algo.core.hasAny(obj, ...)\<close> asks whether \<open>obj\<close> has one of the keys.
\<close>

definition defaults :: "obj \<Rightarrow> obj \<Rightarrow> obj" where
  "defaults ob ds = foldl (\<lambda>ob (k, v). if get ob k = Undefined then AList.update k v ob else ob) ob ds"

definition hasAny :: "obj \<Rightarrow> string list \<Rightarrow> bool" where
  "hasAny ob ks = list_ex (\<lambda>k. map_of ob k \<noteq> None) ks"

text \<open>
  The states every element starts with (\<open>this.addStates([...])\<close> in the constructor, on no
  states). The colours \<open>algo.Color.iWHITE\<close>, ... are constants of a module that is not
  part of these sources; they are modelled by their names.
\<close>

definition builtinStates :: "(string \<times> obj) list" where
  "builtinStates =
     [(''ks_normal'', [(''fill'', Str ''iWHITE''), (''stroke'', Str ''iBLUE''), (''pen'', Str ''iBLUE'')]),
      (''ks_faded'', [(''fill'', Str ''iWHITE''), (''stroke'', Str ''iGRAY''), (''pen'', Str ''iGRAY'')]),
      (''ks_blue'', [(''fill'', Str ''iBLUE''), (''stroke'', Str ''iBLUE''), (''pen'', Str ''iWHITE'')]),
      (''ks_gray'', [(''fill'', Str ''iGRAY''), (''stroke'', Str ''iGRAY''), (''pen'', Str ''iWHITE'')]),
      (''ks_orange'', [(''fill'', Str ''iORANGE''), (''stroke'', Str ''iORANGE''), (''pen'', Str ''iWHITE'')]),
      (''ks_red'', [(''fill'', Str ''iRED''), (''stroke'', Str ''iRED''), (''pen'', Str ''iWHITE'')]),
      (''ks_green'', [(''fill'', Str ''iGREEN''), (''stroke'', Str ''iGREEN''), (''pen'', Str ''iWHITE'')]),
      (''ks_cyan'', [(''fill'', Str ''iCYAN''), (''stroke'', Str ''iCYAN''), (''pen'', Str ''iWHITE'')])]"

text \<open>The options the Element constructor applies, from the ones it is given.\<close>

definition elementOptions :: "obj \<Rightarrow> obj" where
  "elementOptions given =
     (let o1 = defaults given [(''type'', Str ''Element''), (''strokeWidth'', Num 1),
                               (''fontSize'', Str ''40px''), (''rotation'', Num 0)];
          o2 = (if \<not> hasAny o1 [''state'', ''stroke'', ''fill'', ''pen'']
                then AList.update ''state'' (Str ''ks_normal'') o1 else o1);
          o3 = (if \<not> truthy (get o2 ''x'') \<and> \<not> truthy (get o2 ''shape'')
                then AList.update ''x'' (Num 0) o2 else o2)
      in if \<not> truthy (get o3 ''y'') \<and> \<not> truthy (get o3 ''shape'')
         then AList.update ''y'' (Num 0) o3 else o3)"

text \<open>
  \<open>new algo.render.Element(_options)\<close>: a new object gets the id \<open>'algoid-' + nextID++\<close>,
  is entered in \<open>Element.map\<close>, gets an empty child group and the built-in states, and
  the options are applied with \<open>set\<close>. Returns the state and the new element.
\<close>

definition Element_new :: "nat \<Rightarrow> world \<Rightarrow> obj \<Rightarrow> (world \<times> nat) res option" where
  "Element_new n w given =
     (let r = nextRef w;
          e = \<lparr>eid = algoid (nextID w), props = [], parent = None, children = [],
               states = builtinStates, destroyed = False\<rparr>;
          w1 = w\<lparr>elems := (elems w)(r \<mapsto> e), nextRef := Suc r, nextID := Suc (nextID w),
                 emap := (emap w)(algoid (nextID w) \<mapsto> r)\<rparr>
      in bind (set_el n w1 r (Some (elementOptions given)) 0) (\<lambda>w2. Some (Inr (w2, r))))"

definition Rectangle_new :: "nat \<Rightarrow> world \<Rightarrow> obj \<Rightarrow> (world \<times> nat) res option" where
  "Rectangle_new n w given =
     Element_new n w (defaults given [(''type'', Str ''Rectangle''), (''cornerRadius'', Num 0)])"

subsection \<open>The Surface constructor\<close>

text \<open>
  \<open>new algo.render.Surface(options)\<close> becomes the singleton. On the worker side it gets
  an empty command buffer, resets the Element class and creates the root rectangle from
  the bounds; on the DOM side the root comes with the first command.
\<close>

definition Surface_new :: "nat \<Rightarrow> world \<Rightarrow> bool \<Rightarrow> int \<times> int \<times> int \<times> int \<Rightarrow> world res option" where
  "Surface_new n w onDOM bounds =
     (if onDOM then Some (Inr (w\<lparr>commands := [], isDOM := True, root := None\<rparr>))
      else
        (case bounds of (bx, by, bw, bh) \<Rightarrow>
           bind (Rectangle_new n (resetClass (w\<lparr>commands := [], isDOM := False, root := None\<rparr>))
                   [(''root'', JBool True), (''visible'', JBool False),
                    (''x'', Num bx), (''y'', Num by), (''w'', Num bw), (''h'', Num bh),
                    (''strokeWidth'', Num 0)])
             (\<lambda>(w1, r). Some (Inr (w1\<lparr>root := Some r\<rparr>)))))"

text \<open>The state before anything has run: no arrays, no elements, no commands.\<close>

definition emptyWorld :: world where
  "emptyWorld = \<lparr>arrays = (\<lambda>_. []), nextArr = 0, elems = (\<lambda>_. None), nextRef = 0, nextID = 0,
                 emap = (\<lambda>_. None), commands = [], isDOM = False, root = None\<rparr>"

section \<open>The DOM side: command handlers and the history\<close>

definition findElement :: "world \<Rightarrow> jsval \<Rightarrow> nat option" where
  "findElement w idv = emap w idv"

text \<open>
  Before a handler runs, a truthy \<open>params.parent\<close> (an id) is replaced by
  \<open>Element.findElement(params.parent)\<close>, and \<open>playHistory\<close> puts the id back afterwards.
  The recorded frame is handed over as a value here. (An id that names no element is left
  \<open>undefined\<close> in the frame by the source; the handler is given \<open>undefined\<close> for it either
  way.)
\<close>

definition resolveParent :: "world \<Rightarrow> obj \<Rightarrow> obj" where
  "resolveParent w params =
     (if truthy (get params ''parent'')
      then AList.update ''parent''
             (case findElement w (get params ''parent'') of Some q \<Rightarrow> Elem q | None \<Rightarrow> Undefined)
             params
      else params)"

text \<open>
  \<open>new algo.render[options.type](options)\<close>. Of the element classes the model has the
  base class and Rectangle; any other type name is treated as one the namespace does not
  have, for which \<open>new\<close> throws.
\<close>

definition construct :: "nat \<Rightarrow> world \<Rightarrow> obj \<Rightarrow> (world \<times> nat) res option" where
  "construct n w opts =
     (if get opts ''type'' = Str ''Element'' then Element_new n w opts
      else if get opts ''type'' = Str ''Rectangle'' then Rectangle_new n w opts
      else Some (Inl (TypeError, w)))"

definition handleUpdateCommand :: "nat \<Rightarrow> world \<Rightarrow> obj \<Rightarrow> world res option" where
  "handleUpdateCommand n w opts =
     (case findElement w (get opts ''id'') of
        Some e \<Rightarrow> set_el n w e (Some opts) 0
      | None \<Rightarrow>
          bind (construct n w opts)
            (\<lambda>(w1, e). set_el n (if truthy (get opts ''root'') then w1\<lparr>root := Some e\<rparr> else w1)
                         e (Some opts) 0))"

definition handleDestroyCommand :: "nat \<Rightarrow> world \<Rightarrow> obj \<Rightarrow> world res option" where
  "handleDestroyCommand n w opts =
     (case findElement w (get opts ''id'') of
        None \<Rightarrow> Some (Inl (TypeError, w))
      | Some e \<Rightarrow> destroy n w e)"

definition executeCommand :: "nat \<Rightarrow> world \<Rightarrow> command \<Rightarrow> world res option" where
  "executeCommand n w cmd =
     (case name cmd of
        UPDATE_COMMAND \<Rightarrow> handleUpdateCommand n w (resolveParent w (options cmd))
      | DESTROY_COMMAND \<Rightarrow> handleDestroyCommand n w (resolveParent w (options cmd)))"

text \<open>The inner loop of \<open>playHistory\<close>: the commands of one frame, in order.\<close>

fun playFrame :: "nat \<Rightarrow> world \<Rightarrow> command list \<Rightarrow> world res option" where
  "playFrame n w [] = Some (Inr w)"
| "playFrame n w (cmd # cmds) = bind (executeCommand n w cmd) (\<lambda>w1. playFrame n w1 cmds)"

text \<open>
  \<open>playHistory(commandsHistory, start, end)\<close>: the frames \<open>start \<le> i < end\<close>; reading
  \<open>commandsHistory[i].renderCommands\<close> outside the array throws.
\<close>

fun playFrames :: "nat \<Rightarrow> command list list \<Rightarrow> world \<Rightarrow> int list \<Rightarrow> world res option" where
  "playFrames n history w [] = Some (Inr w)"
| "playFrames n history w (i # is) =
     (if 0 \<le> i \<and> i < int (length history)
      then bind (playFrame n w (history ! nat i)) (\<lambda>w1. playFrames n history w1 is)
      else Some (Inl (TypeError, w)))"

definition playHistory :: "nat \<Rightarrow> command list list \<Rightarrow> int \<Rightarrow> int \<Rightarrow> world \<Rightarrow> world res option" where
  "playHistory n history start stop w = playFrames n history w [start..stop - 1]"

text \<open>\<open>resetElements\<close>: \<open>Element.resetClass()\<close> and \<open>this.empty()\<close>, which deletes the root.\<close>

definition resetElements :: "world \<Rightarrow> world" where
  "resetElements w = (resetClass w)\<lparr>root := None\<rparr>"

text \<open>
  The surface that plays a history: the state, and \<open>this.historyFrame\<close>, the frame it
  stands at (\<open>-1\<close> when it has played none, as \<open>enterHistoryMode\<close> sets it).
  \<open>executeCommandHistory(commandsHistory, frameIndex)\<close> plays on from the present when
  the frame asked for is not behind it, and from the beginning, on reset elements,
  otherwise.
\<close>

record player =
  pworld :: world
  historyFrame :: int

definition executeCommandHistory :: "nat \<Rightarrow> command list list \<Rightarrow> int \<Rightarrow> player \<Rightarrow> player res option" where
  "executeCommandHistory n history frameIndex p =
     bind (if historyFrame p = - 1 \<or> frameIndex < historyFrame p
           then playHistory n history 0 frameIndex (resetElements (pworld p))
           else playHistory n history (historyFrame p) frameIndex (pworld p))
       (\<lambda>w1. Some (Inr \<lparr>pworld = w1, historyFrame = frameIndex\<rparr>))"

section \<open>The worker: WorkerApp\<close>

text \<open>
  The messages the worker posts. The user's algorithm is a generator: its \<open>k\<close>-th call
  of \<open>next()\<close> runs on the current state and yields a value (\<open>Some y\<close>), returns
  (\<open>None\<close>) or throws.
\<close>

datatype message =
    M_Initialize_ACK
  | M_Pause "command list" jsval
  | M_Done "command list"
  | M_Exception error

type_synonym algorithm = "nat \<Rightarrow> world \<Rightarrow> (jsval option \<times> world) res"

record app =
  wstate :: world
  currentCommands :: "command list"
  outbox :: "message list"
  pc :: nat

text \<open>
  The loop of \<open>pause\<close> over \<open>this.currentCommands\<close>: an Update command is sent with
  \<open>processOptions(command.options)\<close>, which changes the command kept in
  \<open>currentCommands\<close> and the arrays; any other command is sent as it is. Returns the
  store, the commands kept and the commands sent.
\<close>

fun pauseCommands :: "store \<Rightarrow> command list \<Rightarrow> store \<times> command list \<times> command list" where
  "pauseCommands h [] = (h, [], [])"
| "pauseCommands h (cmd # cmds) =
     (if name cmd = UPDATE_COMMAND
      then (case processOptions h (options cmd) of
              (h1, kept, clone) \<Rightarrow>
                (case pauseCommands h1 cmds of
                   (h2, cur, act) \<Rightarrow>
                     (h2, cmd\<lparr>options := kept\<rparr> # cur, \<lparr>name = name cmd, options = clone\<rparr> # act)))
      else (case pauseCommands h cmds of (h2, cur, act) \<Rightarrow> (h2, cmd # cur, cmd # act)))"

definition pause :: "app \<Rightarrow> jsval \<Rightarrow> app" where
  "pause a pauseParameters =
     (case flushCommands (wstate a) of
        (cmds, w1) \<Rightarrow>
          (case pauseCommands (arrays w1) cmds of
             (h, cur, act) \<Rightarrow>
               a\<lparr>wstate := w1\<lparr>arrays := h\<rparr>, currentCommands := cur,
                 outbox := outbox a @ [M_Pause act pauseParameters]\<rparr>))"

text \<open>\<open>done()\<close> posts the remaining commands.\<close>

definition done_app :: "app \<Rightarrow> app" where
  "done_app a =
     (case flushCommands (wstate a) of
        (cmds, w1) \<Rightarrow> a\<lparr>wstate := w1, outbox := outbox a @ [M_Done cmds]\<rparr>)"

text \<open>
  \<open>continue()\<close> runs the algorithm to its next yield; an exception is posted.
\<close>

definition continue_app :: "algorithm \<Rightarrow> app \<Rightarrow> app" where
  "continue_app alg a =
     (case alg (pc a) (wstate a) of
        Inl (err, w) \<Rightarrow> a\<lparr>wstate := w, outbox := outbox a @ [M_Exception err]\<rparr>
      | Inr (None, w) \<Rightarrow> done_app (a\<lparr>wstate := w, pc := Suc (pc a)\<rparr>)
      | Inr (Some y, w) \<Rightarrow> pause (a\<lparr>wstate := w, pc := Suc (pc a)\<rparr>) y)"

text \<open>
  The loop of \<open>pauseOrContinue\<close>: only the Update commands whose kept options have a
  truthy \<open>more\<close> are processed and sent.
\<close>

fun continueCommands :: "store \<Rightarrow> command list \<Rightarrow> store \<times> command list \<times> command list" where
  "continueCommands h [] = (h, [], [])"
| "continueCommands h (cmd # cmds) =
     (if name cmd = UPDATE_COMMAND \<and> truthy (get (options cmd) ''more'')
      then (case processOptions h (options cmd) of
              (h1, kept, clone) \<Rightarrow>
                (case continueCommands h1 cmds of
                   (h2, cur, act) \<Rightarrow>
                     (h2, cmd\<lparr>options := kept\<rparr> # cur, \<lparr>name = name cmd, options = clone\<rparr> # act)))
      else (case continueCommands h cmds of (h2, cur, act) \<Rightarrow> (h2, cmd # cur, act)))"

definition pauseOrContinue :: "algorithm \<Rightarrow> app \<Rightarrow> app" where
  "pauseOrContinue alg a =
     (case continueCommands (arrays (wstate a)) (currentCommands a) of
        (h, cur, act) \<Rightarrow>
          if act \<noteq> []
          then a\<lparr>wstate := (wstate a)\<lparr>arrays := h\<rparr>, currentCommands := cur,
                 outbox := outbox a @ [M_Pause act (ObjV [(''autoskip'', JBool True)])]\<rparr>
          else continue_app alg a)"

text \<open>
  \<open>new WorkerApp(...)\<close>: the surface of the worker, with the bounds
  \<open>Box(0, 0, 900, 556)\<close>; the acknowledgement; the first \<open>continue()\<close>.
\<close>

definition WorkerApp_new :: "nat \<Rightarrow> algorithm \<Rightarrow> app res option" where
  "WorkerApp_new n alg =
     bind (Surface_new n emptyWorld False (0, 0, 900, 556))
       (\<lambda>w. Some (Inr (continue_app alg
               \<lparr>wstate = w, currentCommands = [], outbox = [M_Initialize_ACK], pc = 0\<rparr>)))"

section \<open>algo.core.Array\<close>

text \<open>
  A JavaScript number as far as the loop variable of \<open>updateElements\<close> needs it: an
  integer or \<open>NaN\<close>. \<open>undefined + 1\<close> is \<open>NaN\<close>, and every comparison with \<open>NaN\<close>
  is false.
\<close>

datatype jsnum = NaN | Fin int

fun plus1 :: "jsnum option \<Rightarrow> jsnum" where
  "plus1 None = NaN"
| "plus1 (Some NaN) = NaN"
| "plus1 (Some (Fin i)) = Fin (i + 1)"

fun less_len :: "jsnum \<Rightarrow> nat \<Rightarrow> bool" where
  "less_len NaN len = False"
| "less_len (Fin i) len = (i < int len)"

text \<open>
  An item of the array is \<open>{value, element}\<close>. The callbacks of the options object
  (\<open>createElement\<close>, \<open>updateElement\<close>, \<open>destroyElement\<close>) are the user's; a call of
  \<open>invoke\<close> that reaches one is recorded as an event, and \<open>createElement\<close> is the
  function that gives the element for a value and an index (\<open>None\<close> when the options
  have no such function, so that \<open>invoke\<close> returns \<open>undefined\<close>).
\<close>

record item =
  ivalue :: jsval
  ielement :: jsval

datatype event =
    CreateElement jsval int
  | UpdateElement jsval int jsval
  | DestroyElement jsval

record array_options =
  createElement :: "(jsval \<Rightarrow> int \<Rightarrow> jsval) option"
  hasUpdateElement :: bool
  hasDestroyElement :: bool

datatype array_error = InvalidIndex | ArrayTypeError

text \<open>
  The loop of \<open>updateElements\<close>, from a value of \<open>index\<close>:
  \<open>for (...; index < this.a.length; index += 1)\<close>, with the events so far.
\<close>

function updateElements_from ::
  "array_options \<Rightarrow> item list \<Rightarrow> jsnum \<Rightarrow> event list \<Rightarrow> array_error + event list" where
  "updateElements_from ao a index evs =
     (if less_len index (length a)
      then (case index of
              NaN \<Rightarrow> Inr evs
            | Fin i \<Rightarrow>
                if i < 0 then Inl ArrayTypeError
                else updateElements_from ao a (plus1 (Some index))
                       (if truthy (ielement (a ! nat i)) \<and> hasUpdateElement ao
                        then evs @ [UpdateElement (ivalue (a ! nat i)) i (ielement (a ! nat i))]
                        else evs))
      else Inr evs)"
  by pat_completeness auto
termination
  by (relation "measure (\<lambda>(ao, a, index, evs). case index of NaN \<Rightarrow> 0 | Fin i \<Rightarrow> nat (int (length a) - i))")
     auto

text \<open>
  \<open>updateElements()\<close>: \<open>var index = index + 1\<close> reads the variable it declares, which is
  \<open>undefined\<close> at that point.
\<close>

definition updateElements :: "array_options \<Rightarrow> item list \<Rightarrow> array_error + event list" where
  "updateElements ao a = updateElements_from ao a (plus1 None) []"

text \<open>
  \<open>insertAt(value, index)\<close> and \<open>removeAt(index)\<close>: the new list of items and the events,
  or the exception.
\<close>

definition insertAt ::
  "array_options \<Rightarrow> item list \<Rightarrow> jsval \<Rightarrow> int \<Rightarrow> array_error + (item list \<times> event list)" where
  "insertAt ao a v index =
     (if index < 0 \<or> index > int (length a) then Inl InvalidIndex
      else
        let (el, evs) = (case createElement ao of
                           None \<Rightarrow> (Undefined, [])
                         | Some f \<Rightarrow> (f v index, [CreateElement v index]));
            a1 = take (nat index) a @ [\<lparr>ivalue = v, ielement = el\<rparr>] @ drop (nat index) a
        in (case updateElements ao a1 of
              Inl err \<Rightarrow> Inl err
            | Inr evs1 \<Rightarrow> Inr (a1, evs @ evs1)))"

definition removeAt ::
  "array_options \<Rightarrow> item list \<Rightarrow> int \<Rightarrow> array_error + (item list \<times> event list)" where
  "removeAt ao a index =
     (if index < 0 \<or> index \<ge> int (length a) then Inl InvalidIndex
      else
        let it = a ! nat index;
            a1 = take (nat index) a @ drop (Suc (nat index)) a;
            evs = (if truthy (ielement it) \<and> hasDestroyElement ao
                   then [DestroyElement (ielement it)] else [])
        in (case updateElements ao a1 of
              Inl err \<Rightarrow> Inl err
            | Inr evs1 \<Rightarrow> Inr (a1, evs @ evs1)))"

section \<open>Specification-side definitions\<close>

subsection \<open>Ticks of a payload\<close>












subsection \<open>The command buffer\<close>

text \<open>
  The ids of the Update commands of a buffer, in order; the buffer holds at most one
  Update command per id when they are distinct.
\<close>

definition updateIds :: "command list \<Rightarrow> jsval list" where
  "updateIds cmds = map (\<lambda>c. get (options c) ''id'') (filter (\<lambda>c. name c = UPDATE_COMMAND) cmds)"

definition oneUpdatePerId :: "command list \<Rightarrow> bool" where
  "oneUpdatePerId cmds = distinct (updateIds cmds)"

text \<open>A worker-side state with one element and one pending Update command for it.\<close>

definition one_pending :: world where
  "one_pending = emptyWorld
     \<lparr>elems := (\<lambda>_. None)(1 \<mapsto> \<lparr>eid = algoid 1, props = [(''x'', Num 1)], parent = None,
                                     children = [], states = [], destroyed = False\<rparr>),
      commands := [\<lparr>name = UPDATE_COMMAND, options = [(''x'', Num 1), (''id'', algoid 1)]\<rparr>]\<rparr>"

subsection \<open>The array data structure\<close>

text \<open>An event that is a call of the \<open>updateElement\<close> callback.\<close>

definition isUpdateElement :: "event \<Rightarrow> bool" where
  "isUpdateElement ev = (case ev of UpdateElement v i el \<Rightarrow> True | _ \<Rightarrow> False)"

text \<open>An array of two letter tiles whose options have all three callbacks.\<close>

definition tiles_options :: array_options where
  "tiles_options = \<lparr>createElement = Some (\<lambda>v i. Elem (nat i)), hasUpdateElement = True,
                     hasDestroyElement = True\<rparr>"

definition tiles :: "item list" where
  "tiles = [\<lparr>ivalue = Str ''A'', ielement = Elem 0\<rparr>, \<lparr>ivalue = Str ''L'', ielement = Elem 1\<rparr>]"

subsection \<open>Element.set: changes and commands\<close>

text \<open>The state a call ends in, whether it returns or throws.\<close>

definition world_of :: "world res \<Rightarrow> world" where
  "world_of x = (case x of Inl (err, w) \<Rightarrow> w | Inr w \<Rightarrow> w)"

text \<open>The exception of a call, if it threw.\<close>

definition thrown :: "'a res option \<Rightarrow> error option" where
  "thrown x = (case x of Some (Inl (err, w)) \<Rightarrow> Some err | _ \<Rightarrow> None)"


text \<open>
  A worker-side scene, as the library builds it: the surface with its root rectangle
  (\<open>algoid-0\<close>, element 0), one more rectangle (\<open>algoid-1\<close>, element 1), which \<open>set\<close>
  has attached to the root, and the command buffer flushed.
\<close>

definition scene :: "world option" where
  "scene =
     (case Surface_new 10 emptyWorld False (0, 0, 900, 556) of
        Some (Inr w0) \<Rightarrow>
          (case Rectangle_new 10 w0 [] of
             Some (Inr (w1, r)) \<Rightarrow> Some (snd (flushCommands w1))
           | _ \<Rightarrow> None)
      | _ \<Rightarrow> None)"


text \<open>The same scene written out, with only the properties \<open>x\<close> and \<open>y\<close> of element 1.\<close>

definition two_nodes :: world where
  "two_nodes = emptyWorld
     \<lparr>elems := (\<lambda>_. None)
        (0 \<mapsto> \<lparr>eid = Str ''algoid-0'', props = [(''root'', JBool True)], parent = None,
                 children = [1], states = builtinStates, destroyed = False\<rparr>,
         1 \<mapsto> \<lparr>eid = Str ''algoid-1'', props = [(''x'', Num 1), (''y'', Num 2)], parent = Some 0,
                 children = [], states = builtinStates, destroyed = False\<rparr>),
      nextRef := 2, nextID := 2,
      emap := (\<lambda>_. None)(Str ''algoid-0'' \<mapsto> 0, Str ''algoid-1'' \<mapsto> 1),
      root := Some 0\<rparr>"

subsection \<open>Element.destroy: when it throws\<close>

text \<open>
  In the scene, the registry is reset (\<open>Element.resetClass()\<close>, as on entering history
  mode) and element 1, which is not destroyed, is destroyed: its flag before the call and
  the exception of the call.
\<close>

definition scene_destroy_after_reset :: "(bool \<times> error option) option" where
  "scene_destroy_after_reset =
     (case scene of
        None \<Rightarrow> None
      | Some w \<Rightarrow>
          (case elems w 1 of
             None \<Rightarrow> None
           | Some e \<Rightarrow> Some (destroyed e, thrown (destroy 5 (resetClass w) 1))))"

text \<open>
  The part of \<open>destroy()\<close> between the children and the registry: the child list is
  emptied, the node leaves its parent, the surface records the Destroy command.
\<close>

definition destroy_tail :: "world \<Rightarrow> nat \<Rightarrow> world" where
  "destroy_tail w1 r =
     (let w2 = upd_elem w1 r (\<lambda>e. e\<lparr>children := []\<rparr>);
          w3 = (case parent_of w2 r of Some p \<Rightarrow> removeChild w2 p r | None \<Rightarrow> w2)
      in elementDestroyed w3 r)"

subsection \<open>Element.set: the parent of a node\<close>







subsection \<open>Surface.executeCommandHistory: playing forward\<close>

text \<open>
  What the registry is compared with: the frames \<open>0 \<le> i < f\<close> played on the reset elements
  of a state \<open>base\<close>. A player has \<open>replayed\<close> when it stands at a frame \<open>f \<ge> 0\<close> and its
  state is the outcome of that replay.
\<close>

definition rebuild :: "nat \<Rightarrow> command list list \<Rightarrow> int \<Rightarrow> world \<Rightarrow> player res option" where
  "rebuild n history f base =
     bind (playHistory n history 0 f (resetElements base))
       (\<lambda>w1. Some (Inr \<lparr>pworld = w1, historyFrame = f\<rparr>))"

definition replayed :: "nat \<Rightarrow> command list list \<Rightarrow> world \<Rightarrow> player \<Rightarrow> bool" where
  "replayed n history base p =
     (0 \<le> historyFrame p \<and>
      playHistory n history 0 (historyFrame p) (resetElements base) = Some (Inr (pworld p)))"

text \<open>A history of two frames: a root rectangle, then a child of it.\<close>

definition two_frames :: "command list list" where
  "two_frames =
     [[\<lparr>name = UPDATE_COMMAND,
        options = [(''id'', Str ''algoid-0''), (''type'', Str ''Rectangle''), (''root'', JBool True),
                   (''w'', Num 900)]\<rparr>],
      [\<lparr>name = UPDATE_COMMAND,
        options = [(''id'', Str ''algoid-1''), (''type'', Str ''Rectangle''),
                   (''parent'', Str ''algoid-0''), (''x'', Num 5)]\<rparr>]]"

definition fresh_player :: player where
  "fresh_player = \<lparr>pworld = emptyWorld\<lparr>isDOM := True\<rparr>, historyFrame = - 1\<rparr>"

definition registry :: "player \<Rightarrow> (jsval \<times> obj \<times> jsval) list" where
  "registry p =
     map (\<lambda>i. (i, case emap (pworld p) i of
                     None \<Rightarrow> ([], Undefined)
                   | Some r \<Rightarrow> (case elems (pworld p) r of
                                 None \<Rightarrow> ([], Undefined)
                               | Some e \<Rightarrow> (props e, case parent e of None \<Rightarrow> Undefined | Some q \<Rightarrow> id_of (pworld p) q))))
       [Str ''algoid-0'', Str ''algoid-1'']"

subsection \<open>WorkerApp: a rectangle with two fills\<close>

text \<open>
  An algorithm for the worker: \<open>new algo.render.Rectangle({fill: [RED, BLUE]})\<close>, a
  \<open>yield {}\<close>, and the end. The root is the one the surface of the worker makes. (Fuel 10
  is enough for the constructor; running out would be posted as an exception.)
\<close>

definition red_blue :: algorithm where
  "red_blue k w =
     (if k = 0
      then (let a = nextArr w;
                w1 = w\<lparr>arrays := (arrays w)(a := [Str ''RED'', Str ''BLUE'']), nextArr := Suc a\<rparr>
            in case Rectangle_new 10 w1 [(''fill'', Arr a)] of
                 Some (Inr (w2, r)) \<Rightarrow> Inr (Some (ObjV []), w2)
               | Some (Inl e) \<Rightarrow> Inl e
               | None \<Rightarrow> Inl (TypeError, w1))
      else Inr (None, w))"

text \<open>The worker after its start and \<open>k\<close> messages \<open>M_Continue\<close>.\<close>

primrec acknowledged :: "nat \<Rightarrow> app \<Rightarrow> app" where
  "acknowledged 0 a = a"
| "acknowledged (Suc k) a = pauseOrContinue red_blue (acknowledged k a)"

definition red_blue_run :: "nat \<Rightarrow> app option" where
  "red_blue_run k =
     (case WorkerApp_new 10 red_blue of Some (Inr a) \<Rightarrow> Some (acknowledged k a) | _ \<Rightarrow> None)"

text \<open>
  The two Update commands of that run: the one of the root, and the one of the rectangle,
  with what it has for \<open>fill\<close> and for \<open>more\<close> at the moment.
\<close>

definition root_update :: command where
  "root_update =
     \<lparr>name = UPDATE_COMMAND,
      options = [(''fill'', Str ''iWHITE''), (''stroke'', Str ''iBLUE''), (''pen'', Str ''iBLUE''),
                 (''id'', Str ''algoid-0''), (''root'', JBool True), (''visible'', JBool False),
                 (''x'', Num 0), (''y'', Num 0), (''w'', Num 900), (''h'', Num 556),
                 (''strokeWidth'', Num 0), (''type'', Str ''Rectangle''), (''cornerRadius'', Num 0),
                 (''fontSize'', Str ''40px''), (''rotation'', Num 0)]\<rparr>"

definition rect_update :: "obj \<Rightarrow> obj \<Rightarrow> command" where
  "rect_update fill_now more_now =
     \<lparr>name = UPDATE_COMMAND,
      options = fill_now @
                [(''type'', Str ''Rectangle''), (''cornerRadius'', Num 0), (''strokeWidth'', Num 1),
                 (''fontSize'', Str ''40px''), (''rotation'', Num 0), (''x'', Num 0), (''y'', Num 0),
                 (''id'', Str ''algoid-1'')] @ more_now\<rparr>"

section \<open>Proofs\<close>

subsection \<open>processOptions and the draining of a payload\<close>


lemma update_append_in:
  "k \<in> fst ` set xs \<Longrightarrow> AList.update k v (xs @ ys) = AList.update k v xs @ ys"
  by (induction xs) auto






























subsection \<open>The command buffer\<close>

lemma map_of_js_extend:
  "distinct (map fst src) \<Longrightarrow> map_of (js_extend dst src) = map_of dst ++ map_of src"
  unfolding js_extend_def
proof (induction src arbitrary: dst)
  case Nil
  then show ?case by simp
next
  case (Cons kv src)
  obtain k v where kv: "kv = (k, v)" by (cases kv)
  have none: "map_of src k = None" using Cons.prems kv by (simp add: map_of_eq_None_iff)
  have "map_of (foldl (\<lambda>ob (k, v). AList.update k v ob) (AList.update k v dst) src)
        = map_of (AList.update k v dst) ++ map_of src"
    using Cons.prems by (intro Cons.IH) simp
  also have "\<dots> = map_of dst ++ map_of (kv # src)"
  proof
    fix x show "(map_of (AList.update k v dst) ++ map_of src) x = (map_of dst ++ map_of (kv # src)) x"
      using none by (cases "x = k") (simp_all add: kv AList.update_conv' map_add_def split: option.splits)
  qed
  finally have main: "map_of (foldl (\<lambda>ob (k, v). AList.update k v ob) (AList.update k v dst) src)
        = map_of dst ++ map_of (kv # src)" .
  have step: "foldl (\<lambda>ob (k, v). AList.update k v ob) dst (kv # src)
        = foldl (\<lambda>ob (k, v). AList.update k v ob) (AList.update k v dst) src"
    by (simp add: kv)
  show ?case unfolding step by (rule main)
qed

lemma get_js_extend:
  "distinct (map fst src) \<Longrightarrow>
   get (js_extend dst src) k = (case map_of src k of Some v \<Rightarrow> v | None \<Rightarrow> get dst k)"
  by (simp add: get_def map_of_js_extend map_add_def split: option.splits)

lemma distinct_commandOptions:
  "distinct (map fst opts) \<Longrightarrow> distinct (map fst (commandOptions w e opts))"
  by (simp add: commandOptions_def Let_def AList.distinct_update distinct_map_filter)

lemma get_commandOptions_id: "get (commandOptions w e opts) ''id'' = id_of w e"
  by (simp add: commandOptions_def get_def AList.update_conv' Let_def)

lemma map_of_commandOptions_id: "map_of (commandOptions w e opts) ''id'' = Some (id_of w e)"
  by (simp add: commandOptions_def AList.update_conv' Let_def)

lemma extendExisting_None:
  "extendExisting cmds c = None \<longleftrightarrow> get c ''id'' \<notin> set (updateIds cmds)"
  by (induction cmds) (auto simp: updateIds_def)

lemma extendExisting_Some:
  assumes "extendExisting cmds c = Some cmds'" "map_of c ''id'' \<noteq> None"
  shows "\<exists>i < length cmds.
           name (cmds ! i) = UPDATE_COMMAND \<and> get (options (cmds ! i)) ''id'' = get c ''id''
         \<and> (\<forall>j < i. \<not> (name (cmds ! j) = UPDATE_COMMAND \<and> get (options (cmds ! j)) ''id'' = get c ''id''))
         \<and> cmds' = cmds[i := (cmds ! i)\<lparr>options := js_extend (options (cmds ! i)) c\<rparr>]"
  using assms
proof (induction cmds arbitrary: cmds')
  case Nil
  then show ?case by simp
next
  case (Cons cmd cmds)
  show ?case
  proof (cases "name cmd = UPDATE_COMMAND \<and> get (options cmd) ''id'' = get c ''id''")
    case True
    then have "cmds' = cmd\<lparr>options := js_extend (options cmd) c\<rparr> # cmds" using Cons.prems by simp
    then show ?thesis using True by (intro exI[of _ 0]) simp
  next
    case False
    then obtain rest where rest: "extendExisting cmds c = Some rest" "cmds' = cmd # rest"
      using Cons.prems by auto
    from Cons.IH[OF rest(1) Cons.prems(2)] obtain i where i: "i < length cmds"
      "name (cmds ! i) = UPDATE_COMMAND \<and> get (options (cmds ! i)) ''id'' = get c ''id''"
      "\<forall>j < i. \<not> (name (cmds ! j) = UPDATE_COMMAND \<and> get (options (cmds ! j)) ''id'' = get c ''id'')"
      "rest = cmds[i := (cmds ! i)\<lparr>options := js_extend (options (cmds ! i)) c\<rparr>]"
      by blast
    show ?thesis
    proof (intro exI[of _ "Suc i"] conjI allI impI)
      fix j assume "j < Suc i"
      then show "\<not> (name ((cmd # cmds) ! j) = UPDATE_COMMAND \<and> get (options ((cmd # cmds) ! j)) ''id'' = get c ''id'')"
        using False i(3) by (cases j) auto
    qed (use i rest in auto)
  qed
qed

lemma updateIds_extended:
  assumes "i < length cmds" "get (options (cmds ! i)) ''id'' = get c ''id''" "map_of c ''id'' \<noteq> None"
    "distinct (map fst c)"
  shows "updateIds (cmds[i := (cmds ! i)\<lparr>options := js_extend (options (cmds ! i)) c\<rparr>]) = updateIds cmds"
proof -
  have "\<And>xs j. j < length xs \<Longrightarrow> get (options (xs ! j)) ''id'' = get c ''id'' \<Longrightarrow>
     updateIds (xs[j := (xs ! j)\<lparr>options := js_extend (options (xs ! j)) c\<rparr>]) = updateIds xs"
  proof -
    fix xs :: "command list" and j
    show "j < length xs \<Longrightarrow> get (options (xs ! j)) ''id'' = get c ''id'' \<Longrightarrow>
     updateIds (xs[j := (xs ! j)\<lparr>options := js_extend (options (xs ! j)) c\<rparr>]) = updateIds xs"
    proof (induction xs arbitrary: j)
      case Nil
      then show ?case by simp
    next
      case (Cons x xs)
      show ?case
      proof (cases j)
        case 0
        obtain v where v: "map_of c ''id'' = Some v" using assms(3) by blast
        have "get (js_extend (options x) c) ''id'' = get c ''id''"
          by (simp add: get_def map_of_js_extend[OF assms(4)] v)
        then show ?thesis using Cons.prems 0 by (simp add: updateIds_def)
      next
        case (Suc j')
        then show ?thesis using Cons by (auto simp: updateIds_def)
      qed
    qed
  qed
  then show ?thesis using assms by blast
qed

text \<open>
  C3. \<open>addCommand\<close> keeps the buffer at one Update command per id at most. On the worker
  side, an update for an element whose id already has an Update command in the buffer
  leaves the length of the buffer as it is and extends the options of that command: every
  key of the new payload is assigned (the last write wins), the other keys stay. Without
  such a command the new one is appended. \<open>flushCommands\<close> hands the buffer over and
  empties it.
\<close>

theorem C3_addCommand_coalesces:
  assumes "distinct (map fst opts)"
  shows "(oneUpdatePerId (commands w) \<longrightarrow> oneUpdatePerId (commands (addCommand w nm e opts)))
   \<and> (\<not> isDOM w \<and> id_of w e \<in> set (updateIds (commands w)) \<longrightarrow>
        (\<exists>i < length (commands w).
            name (commands w ! i) = UPDATE_COMMAND
          \<and> get (options (commands w ! i)) ''id'' = id_of w e
          \<and> commands (addCommand w UPDATE_COMMAND e opts) =
              (commands w)[i := (commands w ! i)
                 \<lparr>options := js_extend (options (commands w ! i)) (commandOptions w e opts)\<rparr>]
          \<and> length (commands (addCommand w UPDATE_COMMAND e opts)) = length (commands w)
          \<and> (\<forall>k. map_of (options (commands (addCommand w UPDATE_COMMAND e opts) ! i)) k =
                 (case map_of (commandOptions w e opts) k of
                    Some v \<Rightarrow> Some v
                  | None \<Rightarrow> map_of (options (commands w ! i)) k))))
   \<and> (\<not> isDOM w \<and> id_of w e \<notin> set (updateIds (commands w)) \<longrightarrow>
        commands (addCommand w UPDATE_COMMAND e opts) =
          commands w @ [\<lparr>name = UPDATE_COMMAND, options = commandOptions w e opts\<rparr>])
   \<and> oneUpdatePerId (fst (flushCommands w)) = oneUpdatePerId (commands w)
   \<and> commands (snd (flushCommands w)) = []"
proof (intro conjI impI)
  let ?c = "commandOptions w e opts"
  have cid: "map_of ?c ''id'' \<noteq> None" "get ?c ''id'' = id_of w e"
    by (simp_all add: map_of_commandOptions_id get_commandOptions_id)
  have dc: "distinct (map fst ?c)" using assms by (rule distinct_commandOptions)
  {
    assume inv: "oneUpdatePerId (commands w)"
    show "oneUpdatePerId (commands (addCommand w nm e opts))"
    proof (cases "isDOM w")
      case True
      then show ?thesis using inv by (simp add: addCommand_def)
    next
      case False
      show ?thesis
      proof (cases nm)
        case DESTROY_COMMAND
        then show ?thesis using inv False by (simp add: addCommand_def oneUpdatePerId_def updateIds_def)
      next
        case UPDATE_COMMAND
        show ?thesis
        proof (cases "extendExisting (commands w) ?c")
          case None
          then have "get ?c ''id'' \<notin> set (updateIds (commands w))" by (simp add: extendExisting_None)
          then show ?thesis using inv False UPDATE_COMMAND None
            by (auto simp: addCommand_def oneUpdatePerId_def updateIds_def)
        next
          case (Some cmds')
          from extendExisting_Some[OF Some cid(1)] obtain i where i: "i < length (commands w)"
            "get (options (commands w ! i)) ''id'' = get ?c ''id''"
            "cmds' = (commands w)[i := (commands w ! i)\<lparr>options := js_extend (options (commands w ! i)) ?c\<rparr>]"
            by blast
          have "updateIds cmds' = updateIds (commands w)"
            unfolding i(3) by (rule updateIds_extended[OF i(1,2) cid(1) dc])
          then show ?thesis using inv False UPDATE_COMMAND Some
            by (simp add: addCommand_def oneUpdatePerId_def)
        qed
      qed
    qed
  }
  {
    assume a: "\<not> isDOM w \<and> id_of w e \<in> set (updateIds (commands w))"
    then obtain cmds' where Some: "extendExisting (commands w) ?c = Some cmds'"
      using extendExisting_None[of "commands w" ?c] cid(2) by (cases "extendExisting (commands w) ?c") auto
    from extendExisting_Some[OF Some cid(1)] obtain i where i: "i < length (commands w)"
      "name (commands w ! i) = UPDATE_COMMAND"
      "get (options (commands w ! i)) ''id'' = get ?c ''id''"
      "cmds' = (commands w)[i := (commands w ! i)\<lparr>options := js_extend (options (commands w ! i)) ?c\<rparr>]"
      by blast
    have res: "commands (addCommand w UPDATE_COMMAND e opts) = cmds'"
      using a Some by (simp add: addCommand_def)
    show "\<exists>i < length (commands w).
            name (commands w ! i) = UPDATE_COMMAND
          \<and> get (options (commands w ! i)) ''id'' = id_of w e
          \<and> commands (addCommand w UPDATE_COMMAND e opts) =
              (commands w)[i := (commands w ! i)
                 \<lparr>options := js_extend (options (commands w ! i)) (commandOptions w e opts)\<rparr>]
          \<and> length (commands (addCommand w UPDATE_COMMAND e opts)) = length (commands w)
          \<and> (\<forall>k. map_of (options (commands (addCommand w UPDATE_COMMAND e opts) ! i)) k =
                 (case map_of (commandOptions w e opts) k of
                    Some v \<Rightarrow> Some v
                  | None \<Rightarrow> map_of (options (commands w ! i)) k))"
      using i cid(2) dc unfolding res
      by (intro exI[of _ i]) (auto simp: map_of_js_extend map_add_def split: option.splits)
  }
  {
    assume a: "\<not> isDOM w \<and> id_of w e \<notin> set (updateIds (commands w))"
    then have "extendExisting (commands w) ?c = None"
      using extendExisting_None[of "commands w" ?c] cid(2) by simp
    then show "commands (addCommand w UPDATE_COMMAND e opts) =
          commands w @ [\<lparr>name = UPDATE_COMMAND, options = commandOptions w e opts\<rparr>]"
      using a by (simp add: addCommand_def)
  }
  show "oneUpdatePerId (fst (flushCommands w)) = oneUpdatePerId (commands w)"
    by (simp add: flushCommands_def)
  show "commands (snd (flushCommands w)) = []"
    by (simp add: flushCommands_def)
qed

theorem C3_addCommand_coalesces_witness:
  "distinct (map fst [(''x'', Num 2), (''y'', Num 3)])
   \<and> oneUpdatePerId (commands one_pending)
   \<and> \<not> isDOM one_pending
   \<and> id_of one_pending 1 \<in> set (updateIds (commands one_pending))
   \<and> oneUpdatePerId (commands (addCommand one_pending UPDATE_COMMAND 1 [(''x'', Num 2), (''y'', Num 3)]))
   \<and> commands (addCommand one_pending UPDATE_COMMAND 1 [(''x'', Num 2), (''y'', Num 3)]) =
       [\<lparr>name = UPDATE_COMMAND, options = [(''x'', Num 2), (''id'', algoid 1), (''y'', Num 3)]\<rparr>]"
  using C3_addCommand_coalesces[of "[(''x'', Num 2), (''y'', Num 3)]" one_pending UPDATE_COMMAND 1]
  by (simp add: one_pending_def emptyWorld_def addCommand_def commandOptions_def js_extend_def
      oneUpdatePerId_def updateIds_def id_of_def get_def Let_def)

subsection \<open>The array data structure\<close>

lemma updateElements_from_NaN: "updateElements_from ao a NaN evs = Inr evs"
  by simp

text \<open>
  C10. In \<open>updateElements\<close> the loop variable starts as \<open>undefined + 1\<close>, which is
  \<open>NaN\<close>, so the loop condition fails at once: the body runs for no index and
  \<open>updateElement\<close> is never invoked, for any array and any options. The events of a
  successful \<open>insertAt\<close> or \<open>removeAt\<close> therefore hold no call of \<open>updateElement\<close>.
\<close>

theorem C10_updateElements_notifies_nothing:
  "plus1 None = NaN
   \<and> updateElements ao a = Inr []
   \<and> (\<forall>a1 evs. insertAt ao a v i = Inr (a1, evs) \<longrightarrow> (\<forall>ev \<in> set evs. \<not> isUpdateElement ev))
   \<and> (\<forall>a1 evs. removeAt ao a j = Inr (a1, evs) \<longrightarrow> (\<forall>ev \<in> set evs. \<not> isUpdateElement ev))"
proof -
  have u: "\<And>b. updateElements ao b = Inr []"
    by (simp add: updateElements_def)
  have "\<forall>a1 evs. insertAt ao a v i = Inr (a1, evs) \<longrightarrow> (\<forall>ev \<in> set evs. \<not> isUpdateElement ev)"
    by (auto simp: insertAt_def u Let_def isUpdateElement_def split: if_splits option.splits)
  moreover have "\<forall>a1 evs. removeAt ao a j = Inr (a1, evs) \<longrightarrow> (\<forall>ev \<in> set evs. \<not> isUpdateElement ev)"
    by (auto simp: removeAt_def u Let_def isUpdateElement_def split: if_splits)
  ultimately show ?thesis using u by simp
qed

theorem C10_updateElements_notifies_nothing_witness:
  "updateElements tiles_options tiles = Inr []
   \<and> insertAt tiles_options tiles (Str ''G'') 1 =
       Inr ([\<lparr>ivalue = Str ''A'', ielement = Elem 0\<rparr>, \<lparr>ivalue = Str ''G'', ielement = Elem 1\<rparr>,
             \<lparr>ivalue = Str ''L'', ielement = Elem 1\<rparr>],
            [CreateElement (Str ''G'') 1])
   \<and> removeAt tiles_options tiles 0 =
       Inr ([\<lparr>ivalue = Str ''L'', ielement = Elem 1\<rparr>], [DestroyElement (Elem 0)])"
  using C10_updateElements_notifies_nothing[of tiles_options tiles "Str ''G''" 1 0]
  by (simp add: insertAt_def removeAt_def updateElements_def tiles_options_def tiles_def Let_def)

subsection \<open>Element.set: changes and commands\<close>

lemma upd_elem_fields [simp]:
  "commands (upd_elem w r f) = commands w"
  "isDOM (upd_elem w r f) = isDOM w"
  "root (upd_elem w r f) = root w"
  "emap (upd_elem w r f) = emap w"
  "arrays (upd_elem w r f) = arrays w"
  "nextArr (upd_elem w r f) = nextArr w"
  "nextID (upd_elem w r f) = nextID w"
  "nextRef (upd_elem w r f) = nextRef w"
  by (simp_all add: upd_elem_def split: option.splits)

lemma elems_upd_elem:
  "elems (upd_elem w r f) x = (if x = r then map_option f (elems w r) else elems w x)"
  by (simp add: upd_elem_def split: option.splits)

lemma addChild_fields [simp]:
  "commands (addChild w p e) = commands w"
  "isDOM (addChild w p e) = isDOM w"
  "root (addChild w p e) = root w"
  "emap (addChild w p e) = emap w"
  "arrays (addChild w p e) = arrays w"
  "nextArr (addChild w p e) = nextArr w"
  by (simp_all add: addChild_def Let_def)

lemma removeChild_fields [simp]:
  "commands (removeChild w p e) = commands w"
  "isDOM (removeChild w p e) = isDOM w"
  "root (removeChild w p e) = root w"
  "emap (removeChild w p e) = emap w"
  "arrays (removeChild w p e) = arrays w"
  "nextArr (removeChild w p e) = nextArr w"
  by (simp_all add: removeChild_def Let_def)

lemma addCommand_fields [simp]:
  "elems (addCommand w nm e opts) = elems w"
  "isDOM (addCommand w nm e opts) = isDOM w"
  "root (addCommand w nm e opts) = root w"
  "emap (addCommand w nm e opts) = emap w"
  "arrays (addCommand w nm e opts) = arrays w"
  "nextArr (addCommand w nm e opts) = nextArr w"
  by (simp_all add: addCommand_def split: option.splits)

lemma addStates_fields [simp]:
  "commands (addStates w r v) = commands w"
  "isDOM (addStates w r v) = isDOM w"
  "root (addStates w r v) = root w"
  "emap (addStates w r v) = emap w"
  "arrays (addStates w r v) = arrays w"
  "nextArr (addStates w r v) = nextArr w"
  by (simp_all add: addStates_def Let_def)








subsection \<open>Element.destroy: when it throws\<close>

lemma destroy_Suc:
  assumes "elems w r = Some e" "\<not> destroyed e"
    "destroy_each (destroy n) w (children e) = Some (Inr w1)"
  shows "destroy (Suc n) w r =
     (if emap (destroy_tail w1 r) (id_of (destroy_tail w1 r) r) = None
      then Some (Inl (MissingElement, destroy_tail w1 r))
      else Some (Inr (upd_elem ((destroy_tail w1 r)
                         \<lparr>emap := (emap (destroy_tail w1 r))(id_of (destroy_tail w1 r) r := None)\<rparr>)
                       r (\<lambda>e. e\<lparr>destroyed := True\<rparr>))))"
  using assms by (simp add: destroy_body_def bind_def destroy_tail_def Let_def)

lemma dom_upd_elem [simp]: "dom (elems (upd_elem w r f)) = dom (elems w)"
  by (auto simp: upd_elem_def split: option.splits)

lemma dom_addChild [simp]: "dom (elems (addChild w p e)) = dom (elems w)"
  by (simp add: addChild_def Let_def)

lemma dom_removeChild [simp]: "dom (elems (removeChild w p e)) = dom (elems w)"
  by (simp add: removeChild_def Let_def)

lemma elementDestroyed_elems [simp]: "elems (elementDestroyed w r) = elems w"
  by (simp add: elementDestroyed_def)

lemma destroy_each_dom:
  assumes "\<And>w r res. rec w r = Some res \<Longrightarrow> dom (elems (world_of res)) = dom (elems w)"
    and "destroy_each rec w es = Some res"
  shows "dom (elems (world_of res)) = dom (elems w)"
  using assms(2)
proof (induction es arbitrary: w)
  case Nil
  then show ?case by (auto simp: world_of_def)
next
  case (Cons e es)
  show ?case
  proof (cases "rec w e")
    case None
    then show ?thesis using Cons.prems by (simp add: bind_def)
  next
    case (Some r1)
    show ?thesis
    proof (cases r1)
      case (Inl a)
      then show ?thesis using Cons.prems Some assms(1)[OF Some] by (simp add: bind_def)
    next
      case (Inr w1)
      then have "destroy_each rec w1 es = Some res" using Cons.prems Some by (simp add: bind_def)
      from Cons.IH[OF this] assms(1)[OF Some] Inr show ?thesis by (simp add: world_of_def)
    qed
  qed
qed

lemma destroy_dom:
  "destroy n w r = Some res \<Longrightarrow> dom (elems (world_of res)) = dom (elems w)"
proof (induction n arbitrary: w r res)
  case 0
  then show ?case by simp
next
  case (Suc n)
  show ?case
  proof (cases "elems w r")
    case None
    then show ?thesis using Suc.prems by (auto simp: destroy_body_def world_of_def)
  next
    case (Some e)
    show ?thesis
    proof (cases "destroyed e")
      case True
      then show ?thesis using Suc.prems Some by (auto simp: destroy_body_def world_of_def)
    next
      case False
      show ?thesis
      proof (cases "destroy_each (destroy n) w (children e)")
        case None
        then show ?thesis using Suc.prems Some False by (simp add: destroy_body_def bind_def)
      next
        case (Some r1)
        have d1: "dom (elems (world_of r1)) = dom (elems w)"
          using destroy_each_dom[OF Suc.IH Some] by simp
        show ?thesis
        proof (cases r1)
          case (Inl a)
          then show ?thesis using Suc.prems \<open>elems w r = Some e\<close> False Some d1
            by (simp add: destroy_body_def bind_def)
        next
          case (Inr w1)
          have d4: "dom (elems (destroy_tail w1 r)) = dom (elems w)"
            using d1 Inr by (simp add: destroy_tail_def Let_def world_of_def split: option.splits)
          have "destroy_each (destroy n) w (children e) = Some (Inr w1)" using Some Inr by simp
          from destroy_Suc[OF \<open>elems w r = Some e\<close> False this] Suc.prems
          have "res = Inl (MissingElement, destroy_tail w1 r)
              \<or> res = Inr (upd_elem ((destroy_tail w1 r)
                         \<lparr>emap := (emap (destroy_tail w1 r))(id_of (destroy_tail w1 r) r := None)\<rparr>)
                       r (\<lambda>e. e\<lparr>destroyed := True\<rparr>))"
            by (simp split: if_splits)
          then show ?thesis using d4 by (elim disjE) (simp_all add: world_of_def)
        qed
      qed
    qed
  qed
qed

lemma destroy_marks:
  assumes "destroy n w r = Some (Inr w')"
  shows "\<exists>e'. elems w' r = Some e' \<and> destroyed e'"
proof (cases n)
  case 0
  then show ?thesis using assms by simp
next
  case (Suc m)
  from assms obtain e where e: "elems w r = Some e"
    by (cases "elems w r") (auto simp: Suc destroy_body_def)
  have "r \<in> dom (elems w')" using destroy_dom[OF assms] e by (auto simp: world_of_def)
  then obtain e0 where e0: "elems w' r = Some e0" by blast
  have nd: "\<not> destroyed e" using assms e by (auto simp: Suc destroy_body_def split: if_splits)
  from assms e nd obtain w1 where w1: "destroy_each (destroy m) w (children e) = Some (Inr w1)"
    by (auto simp: Suc destroy_body_def bind_def split: option.splits sum.splits)
  from destroy_Suc[OF e nd w1] assms
  have "w' = upd_elem ((destroy_tail w1 r)
                         \<lparr>emap := (emap (destroy_tail w1 r))(id_of (destroy_tail w1 r) r := None)\<rparr>)
                       r (\<lambda>e. e\<lparr>destroyed := True\<rparr>)"
    by (auto simp: Suc split: if_splits)
  then show ?thesis using e0 by (auto simp: elems_upd_elem)
qed

text \<open>
  C9 (amended). \<open>destroy()\<close> on a node whose destroyed flag is set throws at once, in
  the state it was called in. A \<open>destroy()\<close> that returns has set the flag. On a node
  whose flag is not set, \<open>destroy()\<close> can still throw: with the exception of a
  descendant's \<open>destroy()\<close>, or with \<open>Missing Element\<close> when the node's id is not in the
  registry. It returns for every node without children whose flag is not set and whose id
  is registered.
\<close>

theorem C9_destroy_raises:
  assumes "elems w r = Some e"
  shows "(destroyed e \<longrightarrow> destroy (Suc n) w r = Some (Inl (DestroyAlreadyCalled, w)))
    \<and> (\<forall>w'. destroy (Suc n) w r = Some (Inr w') \<longrightarrow>
          \<not> destroyed e \<and> (\<exists>e'. elems w' r = Some e' \<and> destroyed e'))
    \<and> (\<forall>err w'. \<not> destroyed e \<and> destroy (Suc n) w r = Some (Inl (err, w')) \<longrightarrow>
          destroy_each (destroy n) w (children e) = Some (Inl (err, w')) \<or> err = MissingElement)
    \<and> (\<not> destroyed e \<and> children e = [] \<and> emap w (eid e) \<noteq> None \<longrightarrow>
          (\<exists>w'. destroy (Suc n) w r = Some (Inr w')))"
proof -
  have c1: "destroyed e \<longrightarrow> destroy (Suc n) w r = Some (Inl (DestroyAlreadyCalled, w))"
    using assms by (simp add: destroy_body_def)
  have c2: "\<forall>w'. destroy (Suc n) w r = Some (Inr w') \<longrightarrow>
          \<not> destroyed e \<and> (\<exists>e'. elems w' r = Some e' \<and> destroyed e')"
  proof (intro allI impI)
    fix w' assume a: "destroy (Suc n) w r = Some (Inr w')"
    have "\<not> destroyed e" using a assms by (auto simp: destroy_body_def split: if_splits)
    then show "\<not> destroyed e \<and> (\<exists>e'. elems w' r = Some e' \<and> destroyed e')"
      using destroy_marks[OF a] by simp
  qed
  have c3: "\<forall>err w'. \<not> destroyed e \<and> destroy (Suc n) w r = Some (Inl (err, w')) \<longrightarrow>
          destroy_each (destroy n) w (children e) = Some (Inl (err, w')) \<or> err = MissingElement"
    using assms
    by (auto simp: destroy_body_def bind_def Let_def split: option.splits sum.splits if_splits)
  have c4: "\<not> destroyed e \<and> children e = [] \<and> emap w (eid e) \<noteq> None \<longrightarrow>
          (\<exists>w'. destroy (Suc n) w r = Some (Inr w'))"
  proof
    assume a: "\<not> destroyed e \<and> children e = [] \<and> emap w (eid e) \<noteq> None"
    have "id_of (destroy_tail w r) r = eid e"
      using assms
      by (auto simp: destroy_tail_def id_of_def elementDestroyed_def removeChild_def Let_def
          elems_upd_elem parent_of_def upd_elem_def split: option.splits)
    moreover have "emap (destroy_tail w r) = emap w"
      by (auto simp: destroy_tail_def Let_def elementDestroyed_def split: option.splits)
    moreover have "destroy_each (destroy n) w (children e) = Some (Inr w)" using a by simp
    ultimately show "\<exists>w'. destroy (Suc n) w r = Some (Inr w')"
      using destroy_Suc[OF assms, of n w] a by simp
  qed
  show ?thesis using c1 c2 c3 c4 by blast
qed

theorem C9_destroy_raises_witness:
  "elems two_nodes 1 \<noteq> None
   \<and> thrown (destroy 1 two_nodes 1) = None
   \<and> thrown (destroy 1 (world_of (the (destroy 1 two_nodes 1))) 1) = Some DestroyAlreadyCalled"
  using C9_destroy_raises[of two_nodes 1 "the (elems two_nodes 1)" 0]
  by (simp add: two_nodes_def emptyWorld_def destroy_body_def bind_def thrown_def world_of_def
      parent_of_def id_of_def upd_elem_def removeChild_def elementDestroyed_def addCommand_def
      commandOptions_def get_def Let_def)

text \<open>
  The claim as stated fails in one direction: element 1 of the scene is not destroyed, and
  after a reset of the registry its \<open>destroy()\<close> throws \<open>Missing Element\<close>.
\<close>

theorem C9_counterexample:
  "scene_destroy_after_reset = Some (False, Some MissingElement)"
  by code_simp

subsection \<open>Element.set: the parent of a node\<close>































subsection \<open>Surface.executeCommandHistory: playing forward\<close>

lemma bind_assoc: "bind (bind m f) g = bind m (\<lambda>x. bind (f x) g)"
  by (simp add: bind_def split: option.splits sum.splits)

lemma bind_Inr [simp]: "bind (Some (Inr x)) f = f x"
  by (simp add: bind_def)

lemma bind_return: "bind m (\<lambda>x. Some (Inr x)) = m"
  by (simp add: bind_def split: option.splits sum.splits)

lemma playFrames_append:
  "playFrames n history w (xs @ ys) = bind (playFrames n history w xs) (\<lambda>w1. playFrames n history w1 ys)"
proof (induction xs arbitrary: w)
  case Nil
  show ?case by simp
next
  case (Cons i xs)
  show ?case
  proof (cases "0 \<le> i \<and> i < int (length history)")
    case True
    then show ?thesis by (simp add: Cons.IH bind_assoc)
  next
    case False
    then show ?thesis by (auto simp add: bind_def)
  qed
qed

lemma upto_frames: "a \<le> b \<Longrightarrow> b \<le> c \<Longrightarrow> [a..c - 1] = [a..b - 1] @ [b..c - 1]"
proof -
  assume ab: "a \<le> b" and bc: "b \<le> c"
  show ?thesis
  proof (cases "a = b")
    case True
    then show ?thesis by simp
  next
    case False
    with ab have "a \<le> b - 1" by simp
    moreover from bc have "b - 1 \<le> c - 1" by simp
    ultimately have "[a..c - 1] = [a..b - 1] @ [b - 1 + 1..c - 1]" by (rule upto_split2)
    then show ?thesis by simp
  qed
qed

lemma playHistory_split:
  assumes "a \<le> b" and "b \<le> c"
  shows "playHistory n history a c w = bind (playHistory n history a b w) (playHistory n history b c)"
  unfolding playHistory_def upto_frames [OF assms] playFrames_append ..

lemma seek_forward:
  assumes "replayed n history base p" and "historyFrame p \<le> f"
  shows "executeCommandHistory n history f p = rebuild n history f base"
proof -
  from assms(1) have c0: "0 \<le> historyFrame p"
    and pc: "playHistory n history 0 (historyFrame p) (resetElements base) = Some (Inr (pworld p))"
    by (simp_all add: replayed_def)
  from c0 assms(2) have inc: "\<not> (historyFrame p = - 1 \<or> f < historyFrame p)" by simp
  have "playHistory n history 0 f (resetElements base)
        = bind (playHistory n history 0 (historyFrame p) (resetElements base))
            (playHistory n history (historyFrame p) f)"
    using c0 assms(2) by (rule playHistory_split)
  also have "\<dots> = playHistory n history (historyFrame p) f (pworld p)" by (simp add: pc)
  finally have "playHistory n history (historyFrame p) f (pworld p)
                = playHistory n history 0 f (resetElements base)" by simp
  with inc show ?thesis by (simp add: executeCommandHistory_def rebuild_def)
qed

lemma rebuild_replayed:
  assumes "rebuild n history f base = Some (Inr p)" and "0 \<le> f"
  shows "replayed n history base p"
  using assms by (auto simp add: rebuild_def replayed_def bind_def split: option.splits sum.splits)

lemma seek_fresh:
  assumes "historyFrame p = - 1"
  shows "executeCommandHistory n history f p = rebuild n history f (pworld p)"
  using assms by (simp add: executeCommandHistory_def rebuild_def)

text \<open>
  Every call that succeeds leaves a player that has replayed: the invariant of the history
  mode, which starts at \<open>historyFrame = -1\<close>.
\<close>

lemma seek_replayed:
  assumes "historyFrame p = - 1 \<or> replayed n history base p" and "0 \<le> f"
    and "executeCommandHistory n history f p = Some (Inr p1)"
  shows "replayed n history base p1 \<or> replayed n history (pworld p) p1"
proof (cases "historyFrame p = - 1 \<or> f < historyFrame p")
  case True
  then have "executeCommandHistory n history f p = rebuild n history f (pworld p)"
    by (simp add: executeCommandHistory_def rebuild_def)
  with assms(3) have "rebuild n history f (pworld p) = Some (Inr p1)" by simp
  then have "replayed n history (pworld p) p1" using assms(2) by (rule rebuild_replayed)
  then show ?thesis ..
next
  case False
  with assms(1) have rp: "replayed n history base p" and le: "historyFrame p \<le> f" by simp_all
  from rp le have "executeCommandHistory n history f p = rebuild n history f base"
    by (rule seek_forward)
  with assms(3) have "rebuild n history f base = Some (Inr p1)" by simp
  then have "replayed n history base p1" using assms(2) by (rule rebuild_replayed)
  then show ?thesis ..
qed



lemma two_frames_first:
  "executeCommandHistory 10 two_frames 0 fresh_player
   = Some (Inr \<lparr>pworld = resetElements (pworld fresh_player), historyFrame = 0\<rparr>)"
  by (simp add: executeCommandHistory_def fresh_player_def playHistory_def)

lemma two_frames_rebuilt:
  "map_option (map_sum fst registry) (rebuild 10 two_frames 2 (pworld fresh_player))
   = Some (Inr [(Str ''algoid-0'',
                 [(''type'', Str ''Rectangle''), (''root'', JBool True), (''w'', Num 900),
                  (''cornerRadius'', Num 0), (''strokeWidth'', Num 1), (''fontSize'', Str ''40px''),
                  (''rotation'', Num 0), (''fill'', Str ''iWHITE''), (''stroke'', Str ''iBLUE''),
                  (''pen'', Str ''iBLUE''), (''x'', Num 0), (''y'', Num 0)],
                 Undefined),
                (Str ''algoid-1'',
                 [(''type'', Str ''Rectangle''), (''x'', Num 5), (''cornerRadius'', Num 0),
                  (''strokeWidth'', Num 1), (''fontSize'', Str ''40px''), (''rotation'', Num 0),
                  (''fill'', Str ''iWHITE''), (''stroke'', Str ''iBLUE''), (''pen'', Str ''iBLUE''),
                  (''y'', Num 0)],
                 Str ''algoid-0'')])"
  by code_simp

subsection \<open>WorkerApp: a rectangle with two fills\<close>

lemma red_blue_start:
  "map_option (\<lambda>a. (outbox a, currentCommands a, arrays (wstate a) 0, pc a, commands (wstate a)))
     (red_blue_run 0)
   = Some ([M_Initialize_ACK,
            M_Pause [root_update, rect_update [(''fill'', Str ''RED'')] []] (ObjV [])],
           [root_update, rect_update [(''fill'', Arr 0)] [(''more'', JBool True)]],
           [Str ''BLUE''], 1, [])"
  by code_simp

lemma red_blue_run_Suc:
  "red_blue_run k = Some a \<Longrightarrow> red_blue_run (Suc k) = Some (pauseOrContinue red_blue a)"
  by (auto simp add: red_blue_run_def split: option.splits sum.splits)

lemma acknowledge_first:
  assumes "currentCommands a = [root_update, rect_update [(''fill'', Arr 0)] [(''more'', JBool True)]]"
    and "arrays (wstate a) 0 = [Str ''BLUE'']"
  shows "outbox (pauseOrContinue alg a)
         = outbox a @ [M_Pause [rect_update [(''fill'', Str ''BLUE'')] []] (ObjV [(''autoskip'', JBool True)])]"
    and "currentCommands (pauseOrContinue alg a) = [root_update, rect_update [] []]"
    and "pc (pauseOrContinue alg a) = pc a"
    and "commands (wstate (pauseOrContinue alg a)) = commands (wstate a)"
  using assms
  by (simp_all add: pauseOrContinue_def root_update_def rect_update_def processOptions_def
        shift_def get_def AList.delete_eq)

lemma acknowledge_second:
  assumes "currentCommands a = [root_update, rect_update [] []]"
    and "pc a = 1" and "commands (wstate a) = []"
  shows "outbox (pauseOrContinue red_blue a) = outbox a @ [M_Done []]"
    and "pc (pauseOrContinue red_blue a) = 2"
  using assms
  by (simp_all add: pauseOrContinue_def root_update_def rect_update_def get_def
        continue_app_def red_blue_def done_app_def flushCommands_def)

text \<open>
  C2, as the code has it. The worker starts with the algorithm above. Its first message
  \<open>M_Pause\<close> holds two Update commands: the one of the root the surface made, and the one
  of the rectangle, sent with \<open>fill = RED\<close> and without \<open>more\<close>; the \<open>more\<close> is on the command
  the worker keeps, next to the rest of the array, and the algorithm has been run once.
  The first \<open>M_Continue\<close> posts a second \<open>M_Pause\<close>, with the one command of the rectangle,
  \<open>fill = BLUE\<close> and no \<open>more\<close>, and does not run the algorithm. The second \<open>M_Continue\<close>
  posts no \<open>M_Pause\<close>: it runs the algorithm, which ends, and \<open>M_Done\<close> is posted.
\<close>

theorem C2_two_batches_then_resume:
  "map_option (\<lambda>a. (outbox a, currentCommands a, arrays (wstate a) 0, pc a)) (red_blue_run 0)
   = Some ([M_Initialize_ACK,
            M_Pause [root_update, rect_update [(''fill'', Str ''RED'')] []] (ObjV [])],
           [root_update, rect_update [(''fill'', Arr 0)] [(''more'', JBool True)]],
           [Str ''BLUE''], 1) \<and>
   map_option (\<lambda>a. (drop 2 (outbox a), currentCommands a, pc a)) (red_blue_run (Suc 0))
   = Some ([M_Pause [rect_update [(''fill'', Str ''BLUE'')] []] (ObjV [(''autoskip'', JBool True)])],
           [root_update, rect_update [] []], 1) \<and>
   map_option (\<lambda>a. (drop 3 (outbox a), pc a)) (red_blue_run (Suc (Suc 0)))
   = Some ([M_Done []], 2)"
proof -
  from red_blue_start obtain a0 where r0: "red_blue_run 0 = Some a0"
    and o0: "outbox a0 = [M_Initialize_ACK,
               M_Pause [root_update, rect_update [(''fill'', Str ''RED'')] []] (ObjV [])]"
    and c0: "currentCommands a0
             = [root_update, rect_update [(''fill'', Arr 0)] [(''more'', JBool True)]]"
    and h0: "arrays (wstate a0) 0 = [Str ''BLUE'']"
    and p0: "pc a0 = 1" and k0: "commands (wstate a0) = []"
    by auto
  define a1 where "a1 = pauseOrContinue red_blue a0"
  define a2 where "a2 = pauseOrContinue red_blue a1"
  from r0 have r1: "red_blue_run (Suc 0) = Some a1"
    unfolding a1_def by (rule red_blue_run_Suc)
  from r1 have r2: "red_blue_run (Suc (Suc 0)) = Some a2"
    unfolding a2_def by (rule red_blue_run_Suc)
  have o1: "outbox a1 = outbox a0 @ [M_Pause [rect_update [(''fill'', Str ''BLUE'')] []]
                                       (ObjV [(''autoskip'', JBool True)])]"
    and c1: "currentCommands a1 = [root_update, rect_update [] []]"
    and p1: "pc a1 = 1" and k1: "commands (wstate a1) = []"
    unfolding a1_def using acknowledge_first [OF c0 h0, of red_blue] p0 k0 by simp_all
  have o2: "outbox a2 = outbox a1 @ [M_Done []]" and p2: "pc a2 = 2"
    unfolding a2_def using acknowledge_second [OF c1 p1 k1] by simp_all
  have "map_option (\<lambda>a. (outbox a, currentCommands a, arrays (wstate a) 0, pc a)) (red_blue_run 0)
        = Some ([M_Initialize_ACK,
                 M_Pause [root_update, rect_update [(''fill'', Str ''RED'')] []] (ObjV [])],
                [root_update, rect_update [(''fill'', Arr 0)] [(''more'', JBool True)]],
                [Str ''BLUE''], 1)"
    by (simp add: r0 o0 c0 h0 p0)
  moreover have "map_option (\<lambda>a. (drop 2 (outbox a), currentCommands a, pc a)) (red_blue_run (Suc 0))
        = Some ([M_Pause [rect_update [(''fill'', Str ''BLUE'')] []] (ObjV [(''autoskip'', JBool True)])],
                [root_update, rect_update [] []], 1)"
    by (simp add: r1 o1 o0 c1 p1)
  moreover have "map_option (\<lambda>a. (drop 3 (outbox a), pc a)) (red_blue_run (Suc (Suc 0)))
        = Some ([M_Done []], 2)"
    by (simp add: r2 o2 o1 o0 p2)
  ultimately show ?thesis by blast
qed

text \<open>
  The first batch of that run, command by command: the id, the \<open>fill\<close> and the \<open>more\<close> that
  are sent. There are two Update commands, and neither is sent with a \<open>more\<close>.
\<close>

theorem C2_counterexample:
  "map_option (\<lambda>a. case outbox a ! 1 of
                       M_Pause cmds y \<Rightarrow>
                         map (\<lambda>c. (get (options c) ''id'', get (options c) ''fill'',
                                   get (options c) ''more'')) cmds
                     | _ \<Rightarrow> [])
     (red_blue_run 0)
   = Some [(Str ''algoid-0'', Str ''iWHITE'', Undefined), (Str ''algoid-1'', Str ''RED'', Undefined)]"
proof -
  from red_blue_start obtain a0 where r0: "red_blue_run 0 = Some a0"
    and o0: "outbox a0 = [M_Initialize_ACK,
               M_Pause [root_update, rect_update [(''fill'', Str ''RED'')] []] (ObjV [])]"
    by auto
  show ?thesis by (simp add: r0 o0 root_update_def rect_update_def get_def)
qed

end
